theory Spec2Isabelle
  imports Complex_Main
begin

section \<open>JavaScript values as the program sees them\<close>

text \<open>
  The connection receives its messages through \<^verbatim>\<open>JSON.parse\<close> and handles them
  with the static type \<^verbatim>\<open>any\<close>, so the model works on the values of the language:
  what \<^verbatim>\<open>JSON.parse\<close> can return, and \<^verbatim>\<open>undefined\<close>, the value of a property
  that is not there. An object is the list of its own properties. Two objects of parsed
  messages are never the same object, since \<^verbatim>\<open>JSON.parse\<close> builds a tree.

  A number is \<^verbatim>\<open>NaN\<close>, an infinity, or finite, and a finite number is the rational it
  equals. The two zeros are one value: the program does nothing that tells them apart
  (it compares, tests and prints numbers and never divides).
\<close>

datatype number = NaN | Infinity | MinusInfinity | Finite rat

datatype jsval =
    JUndefined
  | JNull
  | JBool bool
  | JNum number
  | JStr string
  | JArr "jsval list"
  | JObj "(string \<times> jsval) list"

text \<open>
  The two conversions between numbers and strings belong to the runtime of the language:
  \<^verbatim>\<open>StringToNumber\<close>, the number that a string spells (\<^verbatim>\<open>NaN\<close> when it spells
  none), and \<^verbatim>\<open>Number::toString\<close>, the text of a number. They round and print binary
  floating point numbers, and the program only hands values to them. The model takes
  them as they are, as a parameter \<open>rt\<close> of every function that converts, and says
  nothing of what they answer.
\<close>

record runtime =
  StringToNumber :: "string \<Rightarrow> number"
  NumberToString :: "number \<Rightarrow> string"

text \<open>
  What leaves a function other than by returning: a \<^verbatim>\<open>TypeError\<close> of the runtime, a
  \<^verbatim>\<open>RangeError\<close> (a recursion without end exhausts the call stack), a value thrown by
  the program (\<^verbatim>\<open>throw resp.data\<close>), a request that the transport failed, and a call
  that leaves the program for a member of \<^verbatim>\<open>Object.prototype\<close>.
\<close>

datatype error =
    TypeError
  | RangeError
  | Thrown jsval
  | RequestFailed
  | ObjectPrototypeCall string

definition then_do :: "error + 'a \<Rightarrow> ('a \<Rightarrow> error + 'b) \<Rightarrow> error + 'b" where
  "then_do m f = (case m of Inl e \<Rightarrow> Inl e | Inr v \<Rightarrow> f v)"

text \<open>\<^verbatim>\<open>if (v)\<close>, \<^verbatim>\<open>a && b\<close>: the falsy values are \<^verbatim>\<open>undefined\<close>, \<^verbatim>\<open>null\<close>,
  \<^verbatim>\<open>false\<close>, zero, \<^verbatim>\<open>NaN\<close> and the empty string.\<close>

fun truthy :: "jsval \<Rightarrow> bool" where
  "truthy JUndefined = False"
| "truthy JNull = False"
| "truthy (JBool b) = b"
| "truthy (JNum n) = (n \<noteq> Finite 0 \<and> n \<noteq> NaN)"
| "truthy (JStr s) = (s \<noteq> [])"
| "truthy (JArr xs) = True"
| "truthy (JObj kvs) = True"

text \<open>
  \<^verbatim>\<open>v.k\<close> for the property names the program reads (\<^verbatim>\<open>message\<close>, \<^verbatim>\<open>response\<close>,
  \<^verbatim>\<open>action\<close>, \<^verbatim>\<open>DevId\<close>, ...), none of which a prototype defines: an own property of
  an object, \<^verbatim>\<open>undefined\<close> on any other value, and a \<^verbatim>\<open>TypeError\<close> on
  \<^verbatim>\<open>undefined\<close> and \<^verbatim>\<open>null\<close>.
\<close>

fun get :: "jsval \<Rightarrow> string \<Rightarrow> error + jsval" where
  "get JUndefined k = Inl TypeError"
| "get JNull k = Inl TypeError"
| "get (JObj kvs) k = Inr (case map_of kvs k of None \<Rightarrow> JUndefined | Some v \<Rightarrow> v)"
| "get v k = Inr JUndefined"

text \<open>\<^verbatim>\<open>a && a.k\<close>: the left operand when it is falsy, the property otherwise.\<close>

definition and_get :: "jsval \<Rightarrow> string \<Rightarrow> error + jsval" where
  "and_get a k = (if truthy a then get a k else Inr a)"

subsection \<open>Conversions and comparisons\<close>

text \<open>
  \<^verbatim>\<open>String(v)\<close>, which is also the conversion of \<^verbatim>\<open>"..." + v\<close>, of a property key
  \<^verbatim>\<open>o[v]\<close> and of an object compared by \<^verbatim>\<open>==\<close> with a primitive. A number is printed
  by the runtime. An array joins its elements with commas, \<^verbatim>\<open>undefined\<close> and \<^verbatim>\<open>null\<close>
  elements as the empty string. An object is \<^verbatim>\<open>[object Object]\<close>, unless it has an own
  property \<^verbatim>\<open>toString\<close>: that is a JSON value, not a function, and the conversion
  throws a \<^verbatim>\<open>TypeError\<close>.
\<close>

fun to_string :: "runtime \<Rightarrow> jsval \<Rightarrow> error + string"
  and join :: "runtime \<Rightarrow> jsval list \<Rightarrow> error + string" where
  "to_string rt JUndefined = Inr ''undefined''"
| "to_string rt JNull = Inr ''null''"
| "to_string rt (JBool b) = Inr (if b then ''true'' else ''false'')"
| "to_string rt (JNum n) = Inr (NumberToString rt n)"
| "to_string rt (JStr s) = Inr s"
| "to_string rt (JArr xs) = join rt xs"
| "to_string rt (JObj kvs) =
     (if ''toString'' \<in> set (map fst kvs) then Inl TypeError else Inr ''[object Object]'')"
| "join rt [] = Inr []"
| "join rt (x # xs) =
     (case (if x = JUndefined \<or> x = JNull then Inr [] else to_string rt x) of
        Inl e \<Rightarrow> Inl e
      | Inr a \<Rightarrow>
          if xs = [] then Inr a
          else (case join rt xs of Inl e \<Rightarrow> Inl e | Inr b \<Rightarrow> Inr (a @ '','' @ b)))"

text \<open>
  \<^verbatim>\<open>Number(v)\<close>: \<^verbatim>\<open>undefined\<close> is \<^verbatim>\<open>NaN\<close>, \<^verbatim>\<open>null\<close> and \<^verbatim>\<open>false\<close> are 0,
  \<^verbatim>\<open>true\<close> is 1, a number is itself, a string is the number that the runtime reads in
  it, and an array or an object is first converted to its string.
\<close>

definition Number :: "runtime \<Rightarrow> jsval \<Rightarrow> error + number" where
  "Number rt v =
     (case v of
        JUndefined \<Rightarrow> Inr NaN
      | JNull \<Rightarrow> Inr (Finite 0)
      | JBool b \<Rightarrow> Inr (Finite (if b then 1 else 0))
      | JNum n \<Rightarrow> Inr n
      | JStr s \<Rightarrow> Inr (StringToNumber rt s)
      | _ \<Rightarrow> then_do (to_string rt v) (\<lambda>s. Inr (StringToNumber rt s)))"

text \<open>
  \<^verbatim>\<open>a == b\<close> (\<^verbatim>\<open>IsLooselyEqual\<close>). \<^verbatim>\<open>undefined\<close> and \<^verbatim>\<open>null\<close> equal each other
  and nothing else; a boolean is compared as the number 0 or 1; a number and a string
  are compared as numbers; an object is converted to its string and compared as that;
  two objects are equal when they are the same object, which two values of parsed
  messages never are. Two numbers are equal when they are the same number and not
  \<^verbatim>\<open>NaN\<close>.
\<close>

definition is_nullish :: "jsval \<Rightarrow> bool" where
  "is_nullish v = (v = JUndefined \<or> v = JNull)"

definition is_object :: "jsval \<Rightarrow> bool" where
  "is_object v = (case v of JArr _ \<Rightarrow> True | JObj _ \<Rightarrow> True | _ \<Rightarrow> False)"

definition bool_to_number :: "jsval \<Rightarrow> jsval" where
  "bool_to_number v = (case v of JBool b \<Rightarrow> JNum (Finite (if b then 1 else 0)) | _ \<Rightarrow> v)"

definition to_primitive :: "runtime \<Rightarrow> jsval \<Rightarrow> error + jsval" where
  "to_primitive rt v =
     (if is_object v then then_do (to_string rt v) (\<lambda>s. Inr (JStr s)) else Inr v)"

definition number_eq :: "number \<Rightarrow> number \<Rightarrow> bool" where
  "number_eq m n = (m = n \<and> m \<noteq> NaN)"

fun primitive_eq :: "runtime \<Rightarrow> jsval \<Rightarrow> jsval \<Rightarrow> bool" where
  "primitive_eq rt (JNum m) (JNum n) = number_eq m n"
| "primitive_eq rt (JStr s) (JStr t) = (s = t)"
| "primitive_eq rt (JNum m) (JStr t) = number_eq m (StringToNumber rt t)"
| "primitive_eq rt (JStr s) (JNum n) = number_eq (StringToNumber rt s) n"
| "primitive_eq rt a b = False"

definition loose_eq :: "runtime \<Rightarrow> jsval \<Rightarrow> jsval \<Rightarrow> error + bool" where
  "loose_eq rt a b =
     (if is_nullish a \<or> is_nullish b then Inr (is_nullish a \<and> is_nullish b)
      else if is_object a \<and> is_object b then Inr False
      else
        then_do (to_primitive rt (bool_to_number a)) (\<lambda>x.
        then_do (to_primitive rt (bool_to_number b)) (\<lambda>y.
        Inr (primitive_eq rt x y))))"

text \<open>\<^verbatim>\<open>a === "..."\<close>: a string with the same characters.\<close>

definition strict_eq_string :: "jsval \<Rightarrow> string \<Rightarrow> bool" where
  "strict_eq_string a s = (a = JStr s)"

section \<open>The data model\<close>

text \<open>
  \<^verbatim>\<open>DeviceInfo\<close> is what the caller hands to \<^verbatim>\<open>connect\<close>. The interfaces \<^verbatim>\<open>Device\<close>,
  \<^verbatim>\<open>DeviceNode\<close>, \<^verbatim>\<open>SignalAttribute\<close> and \<^verbatim>\<open>Alarm\<close> of the source describe values
  inside messages; the program stores and forwards those as they arrive and reads nothing
  of them but \<^verbatim>\<open>DevId\<close>, so they stay values of type \<open>jsval\<close>.
\<close>

record DeviceInfo =
  auth :: string
  deviceID :: string
  productID :: string
  enu_modelid :: string
  deviceAlias :: string
  deviceOrder :: string
  cmdIP :: string
  cmdDomain :: string
  period :: string
  time :: string
  day :: string
  timezone :: string

datatype ArmState = Home | Disarmed | Armed | SOS

fun ArmState_value :: "ArmState \<Rightarrow> number" where
  "ArmState_value Home = Finite 1"
| "ArmState_value Disarmed = Finite 2"
| "ArmState_value Armed = Finite 3"
| "ArmState_value SOS = Finite 4"

record AlarmState =
  State :: number
  Alarm :: bool

text \<open>
  The session. \<open>username\<close> and \<open>uuid\<close> are the caller's strings; \<open>Alias\<close>
  (the field \<^verbatim>\<open>alias\<close>, under the name of its getter), \<open>uib\<close>
  and \<open>token\<close> are taken from response bodies as they come. \<open>baseURL\<close> is the one
  option of the HTTP client that the login sets.
\<close>

record Client =
  baseURL :: string
  username :: string
  Alias :: jsval
  uuid :: string
  uib :: jsval
  token :: jsval

text \<open>
  A handler is a closure of the source. The three that a request registers capture the
  \<^verbatim>\<open>resolve\<close> and \<^verbatim>\<open>reject\<close> of the promise the request returns, named here by the
  promise's index among the promises of its type; the one of \<^verbatim>\<open>setAlarmState\<close> also
  captures \<^verbatim>\<open>newState\<close>.
\<close>

datatype handler =
    ignore_message
  | status_info_handler
  | update_devices_handler
  | SceneUpdate_handler
  | get_all_devices_handler nat
  | get_scene_current_handler nat
  | set_scene_current_handler nat ArmState

datatype 'a promise = Pending | Resolved 'a | Rejected jsval

datatype event = emit_status bool | emit_state AlarmState | emit_alarm jsval

datatype log_entry = unhandled_message string jsval | unknown_message string jsval

datatype payload = JSON_stringify jsval

text \<open>
  The connection: the fields of the class, then what it has done to the outside, in
  order (the events emitted to listeners, the lines written to the console, the messages
  published), then the promises its requests have returned. Listeners, the console and
  the broker are outside the program; a listener that calls back into the connection
  while an event is emitted is not modelled.
\<close>

record DeviceConnection =
  device :: DeviceInfo
  client :: Client
  clientId :: string
  handlers :: "string \<rightharpoonup> handler"
  model :: jsval
  online :: bool
  devices :: "jsval list"
  alarm :: "AlarmState option"
  emitted :: "event list"
  console :: "log_entry list"
  published :: "(string \<times> payload) list"
  devices_promises :: "jsval list promise list"
  alarm_promises :: "AlarmState option promise list"
  boolean_promises :: "bool promise list"

text \<open>
  \<^verbatim>\<open>resolve(v)\<close> and \<^verbatim>\<open>reject(r)\<close> settle a pending promise and do nothing to a
  settled one. A promise holds the value as it is when the promise is settled (the
  source resolves a device listing with the array \<^verbatim>\<open>this.devices\<close> itself, which later
  messages extend).
\<close>

definition resolve :: "nat \<Rightarrow> 'a \<Rightarrow> 'a promise list \<Rightarrow> 'a promise list" where
  "resolve p v ps = (if p < length ps \<and> ps ! p = Pending then ps[p := Resolved v] else ps)"

definition reject :: "nat \<Rightarrow> jsval \<Rightarrow> 'a promise list \<Rightarrow> 'a promise list" where
  "reject p r ps = (if p < length ps \<and> ps ! p = Pending then ps[p := Rejected r] else ps)"

definition emit :: "event \<Rightarrow> DeviceConnection \<Rightarrow> DeviceConnection" where
  "emit e c = c\<lparr>emitted := emitted c @ [e]\<rparr>"

definition console_dir :: "log_entry \<Rightarrow> DeviceConnection \<Rightarrow> DeviceConnection" where
  "console_dir l c = c\<lparr>console := console c @ [l]\<rparr>"

section \<open>The connection\<close>

subsection \<open>The handlers\<close>

text \<open>\<^verbatim>\<open>for (let dev of v)\<close>, entered with a truthy \<open>v\<close>: the elements of an array, the
  characters of a string, a \<^verbatim>\<open>TypeError\<close> on anything else.\<close>

definition iterate :: "jsval \<Rightarrow> error + jsval list" where
  "iterate v =
     (case v of
        JArr xs \<Rightarrow> Inr xs
      | JStr s \<Rightarrow> Inr (map (\<lambda>c. JStr [c]) s)
      | _ \<Rightarrow> Inl TypeError)"

text \<open>The handler of \<^verbatim>\<open>status_info\<close>.\<close>

definition run_status_info :: "jsval \<Rightarrow> DeviceConnection \<Rightarrow> error + DeviceConnection" where
  "run_status_info msg c =
     then_do (get msg ''message'') (\<lambda>m.
     then_do (and_get m ''response'') (\<lambda>resp.
       if truthy resp then
         then_do (get resp ''model'') (\<lambda>md.
         then_do (get resp ''online'') (\<lambda>on.
           Inr (emit (emit_status (strict_eq_string on ''1''))
                  (c\<lparr>model := md, online := strict_eq_string on ''1''\<rparr>))))
       else Inr c))"

text \<open>\<^verbatim>\<open>this.devices.findIndex((item) => item.DevId == dev.DevId)\<close>; \<open>None\<close> is the
  \<open>-1\<close> of the source.\<close>

fun findIndex :: "runtime \<Rightarrow> jsval list \<Rightarrow> jsval \<Rightarrow> error + nat option" where
  "findIndex rt [] dev = Inr None"
| "findIndex rt (item # items) dev =
     (case get item ''DevId'' of
        Inl e \<Rightarrow> Inl e
      | Inr a \<Rightarrow>
          (case get dev ''DevId'' of
             Inl e \<Rightarrow> Inl e
           | Inr b \<Rightarrow>
               (case loose_eq rt a b of
                  Inl e \<Rightarrow> Inl e
                | Inr True \<Rightarrow> Inr (Some 0)
                | Inr False \<Rightarrow>
                    (case findIndex rt items dev of
                       Inl e \<Rightarrow> Inl e
                     | Inr None \<Rightarrow> Inr None
                     | Inr (Some i) \<Rightarrow> Inr (Some (Suc i))))))"

text \<open>The loop of the \<^verbatim>\<open>update_devices\<close> handler over \<^verbatim>\<open>resp.DevicesList\<close>.\<close>

fun update_loop :: "runtime \<Rightarrow> jsval list \<Rightarrow> jsval list \<Rightarrow> error + jsval list" where
  "update_loop rt [] ds = Inr ds"
| "update_loop rt (dev # devs) ds =
     (case findIndex rt ds dev of
        Inl e \<Rightarrow> Inl e
      | Inr (Some idx) \<Rightarrow> update_loop rt devs (ds[idx := dev])
      | Inr None \<Rightarrow> update_loop rt devs (ds @ [dev]))"

definition run_update_devices :: "runtime \<Rightarrow> jsval \<Rightarrow> DeviceConnection \<Rightarrow> error + DeviceConnection" where
  "run_update_devices rt msg c =
     then_do (get msg ''message'') (\<lambda>m.
     then_do (and_get m ''response'') (\<lambda>resp.
       if truthy resp then
         then_do (get resp ''DevicesList'') (\<lambda>dl.
           if truthy dl then
             then_do (iterate dl) (\<lambda>devs.
             then_do (update_loop rt devs (devices c)) (\<lambda>ds.
               Inr (c\<lparr>devices := ds\<rparr>)))
           else Inr c)
       else Inr c))"

text \<open>
  The closure that \<^verbatim>\<open>getAllDevices\<close> registers; \<open>p\<close> is the promise it resolves. The
  revision in \<^verbatim>\<open>src/index.ts\<close> builds the device list in the same way and differs at
  the last page only, where it leaves the closure in the mapping.
\<close>

definition run_get_all_devices :: "nat \<Rightarrow> jsval \<Rightarrow> DeviceConnection \<Rightarrow> error + DeviceConnection" where
  "run_get_all_devices p msg c =
     then_do (get msg ''message'') (\<lambda>m.
     then_do (get m ''response'') (\<lambda>resp.
     then_do (get resp ''clear_flag'') (\<lambda>cf.
     then_do (get resp ''DevicesList'') (\<lambda>dl.
     then_do (if truthy dl then iterate dl else Inr []) (\<lambda>devs.
     then_do (get resp ''page_flag'') (\<lambda>pf.
       let ds = (if strict_eq_string cf ''1'' then [] else devices c) @ devs;
           c1 = c\<lparr>devices := ds\<rparr>
       in if strict_eq_string pf ''0'' then
            Inr (c1\<lparr>handlers := (handlers c1)(''get_all_devices'' \<mapsto> ignore_message),
                     devices_promises := resolve p ds (devices_promises c1)\<rparr>)
          else Inr c1))))))"

text \<open>The closure that \<^verbatim>\<open>getCurrentAlarmState\<close> registers.\<close>

definition run_get_scene_current :: "runtime \<Rightarrow> nat \<Rightarrow> jsval \<Rightarrow> DeviceConnection \<Rightarrow> error + DeviceConnection" where
  "run_get_scene_current rt p msg c =
     then_do (get msg ''message'') (\<lambda>m.
     then_do (and_get m ''response'') (\<lambda>resp.
       if truthy resp then
         then_do (get resp ''action'') (\<lambda>a.
         then_do (loose_eq rt a (JStr ''SceneUpdate'')) (\<lambda>is_update.
           if is_update then
             Inr (c\<lparr>handlers := (handlers c)(''get_scene_current'' \<mapsto> ignore_message),
                     alarm_promises := resolve p (alarm c) (alarm_promises c)\<rparr>)
           else Inr c))
       else Inr c))"

text \<open>The closure that \<^verbatim>\<open>setAlarmState(newState)\<close> registers.\<close>

definition run_set_scene_current ::
    "runtime \<Rightarrow> nat \<Rightarrow> ArmState \<Rightarrow> jsval \<Rightarrow> DeviceConnection \<Rightarrow> error + DeviceConnection" where
  "run_set_scene_current rt p newState msg c =
     then_do (get msg ''message'') (\<lambda>m.
     then_do (and_get m ''response'') (\<lambda>resp.
       if truthy resp then
         then_do (get resp ''status'') (\<lambda>s.
         then_do (loose_eq rt s (JStr ''ok'')) (\<lambda>ok.
           if ok then
             Inr (c\<lparr>alarm := Some \<lparr>State = ArmState_value newState, Alarm = False\<rparr>,
                     boolean_promises := resolve p True (boolean_promises c)\<rparr>)
           else Inr (c\<lparr>boolean_promises := reject p resp (boolean_promises c)\<rparr>)))
       else Inr c))"

text \<open>
  The handlers other than the one of \<^verbatim>\<open>SceneUpdate\<close>. That one calls whatever stands
  under \<^verbatim>\<open>get_scene_current\<close>; were it to stand there itself, it would call itself
  without end.
\<close>

fun call :: "runtime \<Rightarrow> handler \<Rightarrow> jsval \<Rightarrow> DeviceConnection \<Rightarrow> error + DeviceConnection" where
  "call rt ignore_message msg c = Inr c"
| "call rt status_info_handler msg c = run_status_info msg c"
| "call rt update_devices_handler msg c = run_update_devices rt msg c"
| "call rt SceneUpdate_handler msg c = Inl RangeError"
| "call rt (get_all_devices_handler p) msg c = run_get_all_devices p msg c"
| "call rt (get_scene_current_handler p) msg c = run_get_scene_current rt p msg c"
| "call rt (set_scene_current_handler p newState) msg c = run_set_scene_current rt p newState msg c"

text \<open>The handler of \<^verbatim>\<open>SceneUpdate\<close>.\<close>

definition run_SceneUpdate :: "runtime \<Rightarrow> jsval \<Rightarrow> DeviceConnection \<Rightarrow> error + DeviceConnection" where
  "run_SceneUpdate rt msg c =
     then_do (get msg ''message'') (\<lambda>m.
     then_do (and_get m ''response'') (\<lambda>resp.
       if truthy resp then
         then_do (get resp ''CurrentSceneId'') (\<lambda>sid.
         then_do (Number rt sid) (\<lambda>n.
         then_do (get resp ''AlarmState'') (\<lambda>a.
           let c1 = c\<lparr>alarm := Some \<lparr>State = n, Alarm = strict_eq_string a ''1''\<rparr>\<rparr>;
               c2 = emit (emit_state \<lparr>State = n, Alarm = strict_eq_string a ''1''\<rparr>) c1
           in (case handlers c2 ''get_scene_current'' of
                 None \<Rightarrow> Inr c2
               | Some callback \<Rightarrow> call rt callback msg c2))))
       else Inr c))"

definition run_handler :: "runtime \<Rightarrow> handler \<Rightarrow> jsval \<Rightarrow> DeviceConnection \<Rightarrow> error + DeviceConnection" where
  "run_handler rt h msg c = (if h = SceneUpdate_handler then run_SceneUpdate rt msg c else call rt h msg c)"

subsection \<open>The listener of inbound messages\<close>

text \<open>
  \<^verbatim>\<open>this.handlers\<close> is a plain object, so \<^verbatim>\<open>this.handlers[key]\<close> finds the members of
  \<^verbatim>\<open>Object.prototype\<close> under their names when the connection has stored nothing there.
  Two of them, \<^verbatim>\<open>constructor\<close> (the function \<^verbatim>\<open>Object\<close>) and \<^verbatim>\<open>toString\<close>, return
  when they are called with the message and leave the connection as it is. What the
  others do is the runtime's; the model stops at the call.
\<close>

definition Object_prototype :: "string list" where
  "Object_prototype =
     [''constructor'', ''__defineGetter__'', ''__defineSetter__'', ''hasOwnProperty'',
      ''__lookupGetter__'', ''__lookupSetter__'', ''isPrototypeOf'', ''propertyIsEnumerable'',
      ''toString'', ''valueOf'', ''__proto__'', ''toLocaleString'']"

text \<open>
  The listener registered by the constructor, on the value \<open>msg\<close> that \<^verbatim>\<open>JSON.parse\<close>
  returned for the payload received on \<open>topic\<close>.
\<close>

definition on_message :: "runtime \<Rightarrow> string \<Rightarrow> jsval \<Rightarrow> DeviceConnection \<Rightarrow> error + DeviceConnection" where
  "on_message rt topic msg c =
     then_do (get msg ''message'') (\<lambda>m.
     then_do (and_get m ''response'') (\<lambda>resp.
       if truthy resp then
         then_do (get m ''subject'') (\<lambda>subject.
         then_do (loose_eq rt subject (JStr ''Alarm'')) (\<lambda>is_alarm.
           if is_alarm then Inr (emit (emit_alarm resp) c)
           else
             then_do (get resp ''action'') (\<lambda>action.
             then_do (to_string rt action) (\<lambda>key.
               case handlers c key of
                 Some handler \<Rightarrow> run_handler rt handler msg c
               | None \<Rightarrow>
                   if key \<in> set [''constructor'', ''toString''] then Inr c
                   else if key \<in> set Object_prototype then Inl (ObjectPrototypeCall key)
                   else Inr (console_dir (unhandled_message topic msg) c)))))
       else
         then_do (get msg ''msg'') (\<lambda>v.
           if strict_eq_string v ''online'' then Inr c
           else Inr (console_dir (unknown_message topic msg) c))))"

subsection \<open>The constructor and the requests\<close>

text \<open>\<open>rnd\<close> is the value of \<^verbatim>\<open>Math.floor(Math.random() * 1000000)\<close>.\<close>

definition new_DeviceConnection :: "runtime \<Rightarrow> DeviceInfo \<Rightarrow> Client \<Rightarrow> number \<Rightarrow> DeviceConnection" where
  "new_DeviceConnection rt deviceInfo cl rnd =
     \<lparr>device = deviceInfo,
      client = cl,
      clientId = ''android_'' @ NumberToString rt rnd,
      handlers =
        [''device_info'' \<mapsto> ignore_message,
         ''get_all_devices'' \<mapsto> ignore_message,
         ''get_scene_current'' \<mapsto> ignore_message,
         ''status_info'' \<mapsto> status_info_handler,
         ''update_devices'' \<mapsto> update_devices_handler,
         ''SceneUpdate'' \<mapsto> SceneUpdate_handler],
      model = JStr [],
      online = False,
      devices = [],
      alarm = None,
      emitted = [],
      console = [],
      published = [],
      devices_promises = [],
      alarm_promises = [],
      boolean_promises = []\<rparr>"

definition send :: "jsval \<Rightarrow> DeviceConnection \<Rightarrow> DeviceConnection" where
  "send message c =
     c\<lparr>published := published c @
         [(''00s/01/x/300/'' @ deviceID (device c) @ ''/post/111'', JSON_stringify message)]\<rparr>"

definition buildK1ActionMessage :: "DeviceConnection \<Rightarrow> string \<Rightarrow> jsval \<Rightarrow> jsval" where
  "buildK1ActionMessage c subject request =
     JObj [(''message'',
       JObj [(''type'', JStr ''broadcast''),
             (''to'', JStr (deviceID (device c))),
             (''from'', JStr (clientId c)),
             (''username'', Alias (client c)),
             (''ack_mark'', JStr ''0''),
             (''subject'', JStr subject),
             (''request'', request)])]"

text \<open>Each request returns its promise (the index of a new pending promise) and the
  connection after the executor of the promise has run.\<close>

definition getAllDevices :: "DeviceConnection \<Rightarrow> nat \<times> DeviceConnection" where
  "getAllDevices c =
     (let p = length (devices_promises c);
          c1 = c\<lparr>devices_promises := devices_promises c @ [Pending],
                 handlers := (handlers c)(''get_all_devices'' \<mapsto> get_all_devices_handler p)\<rparr>;
          msg = buildK1ActionMessage c1 ''zwave''
                  (JObj [(''action'', JStr ''get_all_devices''), (''status'', JStr ''ok'')])
      in (p, send msg c1))"

definition getCurrentAlarmState :: "DeviceConnection \<Rightarrow> nat \<times> DeviceConnection" where
  "getCurrentAlarmState c =
     (let p = length (alarm_promises c);
          c1 = c\<lparr>alarm_promises := alarm_promises c @ [Pending],
                 handlers := (handlers c)(''get_scene_current'' \<mapsto> get_scene_current_handler p)\<rparr>;
          msg = buildK1ActionMessage c1 ''zwave'' (JObj [(''action'', JStr ''get_scene_current'')])
      in (p, send msg c1))"

definition setAlarmState :: "runtime \<Rightarrow> ArmState \<Rightarrow> DeviceConnection \<Rightarrow> nat \<times> DeviceConnection" where
  "setAlarmState rt newState c =
     (let p = length (boolean_promises c);
          c1 = c\<lparr>boolean_promises := boolean_promises c @ [Pending],
                 handlers := (handlers c)(''set_scene_current'' \<mapsto> set_scene_current_handler p newState)\<rparr>;
          msg = buildK1ActionMessage c1 ''zwave''
                  (JObj [(''action'', JStr ''set_scene_current''),
                         (''Mail'', JStr (username (client c1))),
                         (''NewSceneId'', JStr (NumberToString rt (ArmState_value newState)))])
      in (p, send msg c1))"

subsection \<open>Runs of a connection\<close>

text \<open>
  What happens to a connection, one event after the other: a message arrives, or the
  caller issues a request. An exception leaves the listener; what the transport library
  does with it is outside the program, and a run ends there.
\<close>

datatype step =
    Message string jsval
  | CallGetAllDevices
  | CallGetCurrentAlarmState
  | CallSetAlarmState ArmState

fun exec :: "runtime \<Rightarrow> step \<Rightarrow> DeviceConnection \<Rightarrow> error + DeviceConnection" where
  "exec rt (Message topic msg) c = on_message rt topic msg c"
| "exec rt CallGetAllDevices c = Inr (snd (getAllDevices c))"
| "exec rt CallGetCurrentAlarmState c = Inr (snd (getCurrentAlarmState c))"
| "exec rt (CallSetAlarmState newState) c = Inr (snd (setAlarmState rt newState c))"

fun run :: "runtime \<Rightarrow> step list \<Rightarrow> DeviceConnection \<Rightarrow> error + DeviceConnection" where
  "run rt [] c = Inr c"
| "run rt (s # ss) c = (case exec rt s c of Inl e \<Rightarrow> Inl e | Inr c' \<Rightarrow> run rt ss c')"

section \<open>The login\<close>

text \<open>
  A request as \<^verbatim>\<open>client.get(url, config)\<close> issues it: the URL, the \<^verbatim>\<open>baseURL\<close> of the
  configuration and the \<^verbatim>\<open>dcsn\<close> header, when there are any. The HTTP service is a
  function from the request to the body of the response (\<^verbatim>\<open>resp.data\<close>), or to the
  failure of the request. \<open>now k\<close> is the value of the \<open>k\<close>-th call of \<^verbatim>\<open>Date.now()\<close>.
\<close>

datatype header = encodeURIComponent string

record request =
  url :: string
  config_baseURL :: "string option"
  config_dcsn :: "header option"

definition DREAMCATCHER_ROOT :: string where
  "DREAMCATCHER_ROOT = ''dc11.iotdreamcatcher.net''"

definition APP_VERSION :: string where
  "APP_VERSION = ''1.8.2''"

text \<open>\<^verbatim>\<open>v && v[k] == "200"\<close>, as a condition.\<close>

definition status_200 :: "runtime \<Rightarrow> jsval \<Rightarrow> string \<Rightarrow> error + bool" where
  "status_200 rt v k =
     (if truthy v then then_do (get v k) (\<lambda>s. loose_eq rt s (JStr ''200'')) else Inr False)"

definition userReg :: "runtime \<Rightarrow> (nat \<Rightarrow> number) \<Rightarrow> string \<Rightarrow> request" where
  "userReg rt now uuid' =
     \<lparr>url = ''https://'' @ DREAMCATCHER_ROOT @
              ''/uib/GET/userReg rt/00s/01/com.dreamcatcher.smanos/android/'' @ uuid' @
              ''-com.chuango.h4plus/127.0.0.1/'' @ NumberToString rt (now 0),
      config_baseURL = None,
      config_dcsn = None\<rparr>"

definition userLogin :: "runtime \<Rightarrow> (nat \<Rightarrow> number) \<Rightarrow> string \<Rightarrow> string \<Rightarrow> string \<Rightarrow> string \<Rightarrow> string \<Rightarrow> request" where
  "userLogin rt now base username' password uuid' uib_token =
     \<lparr>url = ''/uac/SET/userLogin rt/00s/01/com.dreamcatcher.smanos/'' @ username' @ ''//'' @
              APP_VERSION @ ''/'' @ uuid' @ ''-com.chuango.h4plus/'' @ uib_token @ ''/'' @
              NumberToString rt (now 1) @ ''/dc/en/h4_plus'',
      config_baseURL = Some base,
      config_dcsn = Some (encodeURIComponent password)\<rparr>"

definition getUserInfo :: "runtime \<Rightarrow> (nat \<Rightarrow> number) \<Rightarrow> string \<Rightarrow> string \<Rightarrow> string \<Rightarrow> request" where
  "getUserInfo rt now base username' uib_token =
     \<lparr>url = ''/uac/GET/getUserInfo rt/00s/01/com.dreamcatcher.smanos/'' @ username' @ ''//'' @
              uib_token @ ''/'' @ NumberToString rt (now 2),
      config_baseURL = Some base,
      config_dcsn = None\<rparr>"

text \<open>
  \<^verbatim>\<open>Client.login\<close> of the revisions that open connections (\<^verbatim>\<open>src/index.ts\<close> and
  the latest revision): the requests it has issued, in order, and the client it returns
  or what it throws. A request that fails makes the login fail with the error of the
  request.
\<close>

definition login ::
    "runtime \<Rightarrow> (request \<Rightarrow> error + jsval) \<Rightarrow> (nat \<Rightarrow> number) \<Rightarrow> string \<Rightarrow> string \<Rightarrow> string
      \<Rightarrow> request list \<times> (error + Client)" where
  "login rt http now username' password uuid' =
     (let r1 = userReg rt now uuid' in
      case http r1 of
        Inl e \<Rightarrow> ([r1], Inl e)
      | Inr data1 \<Rightarrow>
      (case get data1 ''uibReturn'' of
        Inl e \<Rightarrow> ([r1], Inl e)
      | Inr uib' \<Rightarrow>
      (case status_200 rt uib' ''Return status'' of
        Inl e \<Rightarrow> ([r1], Inl e)
      | Inr False \<Rightarrow> ([r1], Inl (Thrown data1))
      | Inr True \<Rightarrow>
      (case then_do (get uib' ''uacIP'') (to_string rt) of
        Inl e \<Rightarrow> ([r1], Inl e)
      | Inr ip \<Rightarrow>
      (case then_do (get uib' ''token'') (to_string rt) of
        Inl e \<Rightarrow> ([r1], Inl e)
      | Inr uib_token \<Rightarrow>
      (let base = ''https://'' @ ip;
           r2 = userLogin rt now base username' password uuid' uib_token in
       case http r2 of
        Inl e \<Rightarrow> ([r1, r2], Inl e)
      | Inr data2 \<Rightarrow>
      (case status_200 rt data2 ''status'' of
        Inl e \<Rightarrow> ([r1, r2], Inl e)
      | Inr False \<Rightarrow> ([r1, r2], Inl (Thrown data2))
      | Inr True \<Rightarrow>
      (case get data2 ''token'' of
        Inl e \<Rightarrow> ([r1, r2], Inl e)
      | Inr token' \<Rightarrow>
      (let r3 = getUserInfo rt now base username' uib_token in
       case http r3 of
        Inl e \<Rightarrow> ([r1, r2, r3], Inl e)
      | Inr data3 \<Rightarrow>
      (case status_200 rt data3 ''status'' of
        Inl e \<Rightarrow> ([r1, r2, r3], Inl e)
      | Inr False \<Rightarrow> ([r1, r2, r3], Inl (Thrown data3))
      | Inr True \<Rightarrow>
      (case then_do (get data3 ''user'') (\<lambda>u. get u ''userAlias'') of
        Inl e \<Rightarrow> ([r1, r2, r3], Inl e)
      | Inr userAlias \<Rightarrow>
          ([r1, r2, r3],
           Inr \<lparr>baseURL = base, username = username', Alias = userAlias, uuid = uuid',
                uib = uib', token = token'\<rparr>))))))))))))"

section \<open>Notions of the specification\<close>

text \<open>A property of a message as a specification reads it: \<^verbatim>\<open>undefined\<close> where the
  message has no such property.\<close>

definition field :: "jsval \<Rightarrow> string \<Rightarrow> jsval" where
  "field v k = (case get v k of Inl e \<Rightarrow> JUndefined | Inr x \<Rightarrow> x)"

definition message_of :: "jsval \<Rightarrow> jsval" where
  "message_of msg = field msg ''message''"

definition response_of :: "jsval \<Rightarrow> jsval" where
  "response_of msg = field (message_of msg) ''response''"

definition subject_of :: "jsval \<Rightarrow> jsval" where
  "subject_of msg = field (message_of msg) ''subject''"

definition action_of :: "jsval \<Rightarrow> jsval" where
  "action_of msg = field (response_of msg) ''action''"

subsection \<open>Pages of a device listing\<close>

text \<open>
  A page is a message with a response whose \<^verbatim>\<open>DevicesList\<close> is an array, or nothing
  that counts (absent, \<^verbatim>\<open>null\<close>, empty). \<open>DevicesList_of\<close> is its payload, \<open>clears\<close>
  tells whether it carries the clear flag.
\<close>

definition DevicesList_of :: "jsval \<Rightarrow> jsval list" where
  "DevicesList_of msg = (case field (response_of msg) ''DevicesList'' of JArr xs \<Rightarrow> xs | _ \<Rightarrow> [])"

definition clears :: "jsval \<Rightarrow> bool" where
  "clears msg = (field (response_of msg) ''clear_flag'' = JStr ''1'')"

definition is_page :: "jsval \<Rightarrow> bool" where
  "is_page msg =
     (\<not> is_nullish (response_of msg) \<and>
      (case field (response_of msg) ''DevicesList'' of JArr xs \<Rightarrow> True | v \<Rightarrow> \<not> truthy v))"

text \<open>The closure of \<^verbatim>\<open>getAllDevices\<close> called on one message after the other.\<close>

fun run_pages :: "nat \<Rightarrow> jsval list \<Rightarrow> DeviceConnection \<Rightarrow> error + DeviceConnection" where
  "run_pages p [] c = Inr c"
| "run_pages p (msg # msgs) c =
     (case run_get_all_devices p msg c of Inl e \<Rightarrow> Inl e | Inr c' \<Rightarrow> run_pages p msgs c')"

text \<open>
  The list that the specification describes: the payloads of the pages one after the
  other, an entry replacing the earlier entry with its \<^verbatim>\<open>DevId\<close>, and a page with the
  clear flag starting from the empty list.
\<close>

fun resolve_duplicate :: "jsval \<Rightarrow> jsval list \<Rightarrow> jsval list" where
  "resolve_duplicate dev [] = [dev]"
| "resolve_duplicate dev (item # items) =
     (if field item ''DevId'' = field dev ''DevId'' then dev # items
      else item # resolve_duplicate dev items)"

definition specified_page :: "jsval list \<Rightarrow> jsval \<Rightarrow> jsval list" where
  "specified_page ds msg =
     foldl (\<lambda>acc dev. resolve_duplicate dev acc) (if clears msg then [] else ds) (DevicesList_of msg)"

definition specified_devices :: "jsval list \<Rightarrow> jsval list \<Rightarrow> jsval list" where
  "specified_devices ds msgs = foldl specified_page ds msgs"

text \<open>The pages from the last one that carries the clear flag on; all of them when none
  does.\<close>

fun since_last_clear :: "jsval list \<Rightarrow> jsval list" where
  "since_last_clear [] = []"
| "since_last_clear (msg # msgs) =
     (if list_ex clears msgs then since_last_clear msgs else msg # msgs)"

subsection \<open>The dispatch as the specification words it\<close>


subsection \<open>Promises and requests\<close>

text \<open>
  A request is one of the three calls of \<open>step\<close>. \<open>promise_pending rq p c\<close>: the
  \<open>p\<close>-th promise returned by requests of the kind of \<open>rq\<close> exists and is pending.
  \<open>same_action\<close>: two requests register their handler under the same action name,
  \<open>action_name\<close>. \<open>promise_count rq c\<close> is the index of the promise that the request
  \<open>rq\<close> returns when issued on \<open>c\<close>. \<open>resolves h rq p\<close>: the handler \<open>h\<close> is the
  closure of a request of the kind of \<open>rq\<close> and holds the \<open>p\<close>-th promise.
\<close>

definition rejected :: "'a promise \<Rightarrow> bool" where
  "rejected x = (case x of Rejected r \<Rightarrow> True | _ \<Rightarrow> False)"

fun promise_pending :: "step \<Rightarrow> nat \<Rightarrow> DeviceConnection \<Rightarrow> bool" where
  "promise_pending CallGetAllDevices p c =
     (p < length (devices_promises c) \<and> devices_promises c ! p = Pending)"
| "promise_pending CallGetCurrentAlarmState p c =
     (p < length (alarm_promises c) \<and> alarm_promises c ! p = Pending)"
| "promise_pending (CallSetAlarmState newState) p c =
     (p < length (boolean_promises c) \<and> boolean_promises c ! p = Pending)"
| "promise_pending (Message topic msg) p c = False"

fun same_action :: "step \<Rightarrow> step \<Rightarrow> bool" where
  "same_action CallGetAllDevices CallGetAllDevices = True"
| "same_action CallGetCurrentAlarmState CallGetCurrentAlarmState = True"
| "same_action (CallSetAlarmState newState) (CallSetAlarmState newState') = True"
| "same_action rq rq' = False"

fun action_name :: "step \<Rightarrow> string" where
  "action_name CallGetAllDevices = ''get_all_devices''"
| "action_name CallGetCurrentAlarmState = ''get_scene_current''"
| "action_name (CallSetAlarmState newState) = ''set_scene_current''"
| "action_name (Message topic msg) = []"

fun promise_count :: "step \<Rightarrow> DeviceConnection \<Rightarrow> nat" where
  "promise_count CallGetAllDevices c = length (devices_promises c)"
| "promise_count CallGetCurrentAlarmState c = length (alarm_promises c)"
| "promise_count (CallSetAlarmState newState) c = length (boolean_promises c)"
| "promise_count (Message topic msg) c = 0"

fun resolves :: "handler \<Rightarrow> step \<Rightarrow> nat \<Rightarrow> bool" where
  "resolves (get_all_devices_handler q) CallGetAllDevices p = (q = p)"
| "resolves (get_scene_current_handler q) CallGetCurrentAlarmState p = (q = p)"
| "resolves (set_scene_current_handler q newState) (CallSetAlarmState newState') p = (q = p)"
| "resolves h rq p = False"

subsection \<open>Invariants of a connection\<close>

text \<open>
  \<open>effect h msg c c'\<close> bounds what a call of the handler \<open>h\<close> with \<open>msg\<close> does to the
  handlers and the promises: the entries under \<^verbatim>\<open>get_all_devices\<close> and
  \<^verbatim>\<open>get_scene_current\<close> may change to the handler that ignores messages and no other
  entry changes, no promise is created, and a promise changes only if \<open>h\<close> is the
  closure that holds it; a promise of a device listing or of an alarm state is never
  rejected, and a promise of \<^verbatim>\<open>setAlarmState\<close> is rejected only with a response whose
  status is not \<^verbatim>\<open>ok\<close>.
\<close>

definition effect :: "runtime \<Rightarrow> handler \<Rightarrow> jsval \<Rightarrow> DeviceConnection \<Rightarrow> DeviceConnection \<Rightarrow> bool" where
  "effect rt h msg c c' =
     ((\<forall>k. handlers c' k \<noteq> handlers c k \<longrightarrow>
         handlers c' k = Some ignore_message \<and>
         (k = ''get_all_devices'' \<or> k = ''get_scene_current'')) \<and>
      length (devices_promises c') = length (devices_promises c) \<and>
      length (alarm_promises c') = length (alarm_promises c) \<and>
      length (boolean_promises c') = length (boolean_promises c) \<and>
      (\<forall>p. devices_promises c' ! p \<noteq> devices_promises c ! p \<longrightarrow>
         h = get_all_devices_handler p \<and> \<not> rejected (devices_promises c' ! p)) \<and>
      (\<forall>p. alarm_promises c' ! p \<noteq> alarm_promises c ! p \<longrightarrow>
         h = get_scene_current_handler p \<and> \<not> rejected (alarm_promises c' ! p)) \<and>
      (\<forall>p. boolean_promises c' ! p \<noteq> boolean_promises c ! p \<longrightarrow>
         (\<exists>newState. h = set_scene_current_handler p newState) \<and>
         (rejected (boolean_promises c' ! p) \<longrightarrow>
            boolean_promises c' ! p = Rejected (response_of msg) \<and>
            truthy (response_of msg) \<and>
            loose_eq rt (field (response_of msg) ''status'') (JStr ''ok'') = Inr False)))"

definition same_promises :: "DeviceConnection \<Rightarrow> DeviceConnection \<Rightarrow> bool" where
  "same_promises c c' =
     (handlers c' = handlers c \<and> devices_promises c' = devices_promises c \<and>
      alarm_promises c' = alarm_promises c \<and> boolean_promises c' = boolean_promises c)"

text \<open>
  The closure of a request stands under the action name of its request only; the entry
  under \<^verbatim>\<open>SceneUpdate\<close> is the handler of the constructor, and the entry under
  \<^verbatim>\<open>get_scene_current\<close> is the handler that ignores messages or the closure of a
  \<^verbatim>\<open>getCurrentAlarmState\<close>.
\<close>

fun registered_under :: "handler \<Rightarrow> string \<Rightarrow> bool" where
  "registered_under (get_all_devices_handler p) k = (k = ''get_all_devices'')"
| "registered_under (get_scene_current_handler p) k = (k = ''get_scene_current'')"
| "registered_under (set_scene_current_handler p newState) k = (k = ''set_scene_current'')"
| "registered_under h k = True"

definition well_formed :: "DeviceConnection \<Rightarrow> bool" where
  "well_formed c =
     ((\<forall>k h. handlers c k = Some h \<longrightarrow> registered_under h k) \<and>
      handlers c ''SceneUpdate'' = Some SceneUpdate_handler \<and>
      (handlers c ''get_scene_current'' = Some ignore_message \<or>
       (\<exists>p. handlers c ''get_scene_current'' = Some (get_scene_current_handler p))))"

definition unreferenced :: "step \<Rightarrow> nat \<Rightarrow> DeviceConnection \<Rightarrow> bool" where
  "unreferenced rq p c = (\<forall>k h. handlers c k = Some h \<longrightarrow> \<not> resolves h rq p)"


section \<open>Examples\<close>

text \<open>
  A runtime for the examples. The examples hand one string to \<^verbatim>\<open>StringToNumber\<close>,
  \<^verbatim>\<open>"3"\<close>, and three numbers to \<^verbatim>\<open>Number::toString\<close>, 3, 42 and 1000: there this
  runtime answers as the language does. Its answers elsewhere are arbitrary, and no
  example reads them.
\<close>

definition example_runtime :: runtime where
  "example_runtime =
     \<lparr>StringToNumber = (\<lambda>s. if s = ''3'' then Finite 3 else NaN),
      NumberToString =
        (\<lambda>n. if n = Finite 3 then ''3'' else if n = Finite 42 then ''42''
             else if n = Finite 1000 then ''1000'' else ''NaN'')\<rparr>"

definition example_device :: DeviceInfo where
  "example_device =
     \<lparr>auth = ''1'', deviceID = ''D1'', productID = ''H4'', enu_modelid = ''1'',
      deviceAlias = ''Panel'', deviceOrder = ''0'', cmdIP = ''10.0.0.1'',
      cmdDomain = ''cmd.example'', period = ''0'', time = ''0'', day = ''0'', timezone = ''0''\<rparr>"

definition example_client :: Client where
  "example_client =
     \<lparr>baseURL = ''https://1.2.3.4'', username = ''ann@example.org'', Alias = JStr ''Ann'',
      uuid = ''U1'', uib = JObj [(''Return status'', JStr ''200'')], token = JStr ''ABC''\<rparr>"

definition example_connection :: DeviceConnection where
  "example_connection = new_DeviceConnection example_runtime example_device example_client (Finite 42)"

text \<open>A response as the panel sends it, and a page of a device listing.\<close>

definition response_message :: "string \<Rightarrow> (string \<times> jsval) list \<Rightarrow> jsval" where
  "response_message subject resp =
     JObj [(''message'', JObj [(''subject'', JStr subject), (''response'', JObj resp)])]"

definition page :: "string \<Rightarrow> jsval list \<Rightarrow> jsval" where
  "page page_flag devs =
     response_message ''zwave''
       [(''action'', JStr ''get_all_devices''), (''page_flag'', JStr page_flag),
        (''DevicesList'', JArr devs)]"

definition example_sensor :: "string \<Rightarrow> string \<Rightarrow> jsval" where
  "example_sensor DevId DevName = JObj [(''DevId'', JStr DevId), (''DevName'', JStr DevName)]"

text \<open>An HTTP service that answers the three requests of a login by their paths.\<close>

definition example_http :: "jsval \<Rightarrow> jsval \<Rightarrow> jsval \<Rightarrow> request \<Rightarrow> error + jsval" where
  "example_http data1 data2 data3 r =
     (if take 8 (url r) = ''https://'' then Inr data1
      else if take 9 (url r) = ''/uac/SET/'' then Inr data2
      else Inr data3)"

text \<open>Bodies of the responses of a login.\<close>

definition discovery_body :: "string \<Rightarrow> jsval" where
  "discovery_body status =
     JObj [(''uibReturn'',
       JObj [(''Return status'', JStr status), (''uacIP'', JStr ''1.2.3.4''), (''token'', JStr ''T'')])]"

definition login_body :: "string \<Rightarrow> jsval" where
  "login_body status = JObj [(''status'', JStr status), (''token'', JStr ''ABC'')]"

definition userInfo_body :: "string \<Rightarrow> jsval" where
  "userInfo_body status =
     JObj [(''status'', JStr status), (''user'', JObj [(''userAlias'', JStr ''Ann'')])]"

section \<open>Properties\<close>

subsection \<open>Reading a message\<close>

lemma then_do_Inl [simp]: "then_do (Inl e) f = Inl e"
  by (simp add: then_do_def)

lemma then_do_Inr [simp]: "then_do (Inr v) f = f v"
  by (simp add: then_do_def)

lemma truthy_not_nullish: "truthy v \<Longrightarrow> \<not> is_nullish v"
  by (cases v) (simp_all add: is_nullish_def)

lemma get_field: "\<not> is_nullish v \<Longrightarrow> get v k = Inr (field v k)"
  by (cases v) (simp_all add: is_nullish_def field_def)


lemma get_field_of_truthy: "truthy (field v k) \<Longrightarrow> get v k' = Inr (field v k')"
  by (cases v) (simp_all add: field_def)


lemma response_ofI:
  assumes "get msg ''message'' = Inr m" and "and_get m ''response'' = Inr resp" and "truthy resp"
  shows "resp = response_of msg"
proof -
  from assms(1) have m: "m = message_of msg" by (simp add: message_of_def field_def)
  show ?thesis
  proof (cases "truthy m")
    case True
    with assms(2) m show ?thesis by (simp add: and_get_def response_of_def field_def)
  next
    case False
    with assms(2,3) show ?thesis by (simp add: and_get_def)
  qed
qed


lemma subject_AlarmD:
  assumes "loose_eq rt (subject_of msg) (JStr ''Alarm'') = Inr True"
  shows "get msg ''message'' = Inr (message_of msg)"
    and "and_get (message_of msg) ''response'' = Inr (response_of msg)"
    and "get (message_of msg) ''subject'' = Inr (subject_of msg)"
    and "\<exists>v. get msg ''msg'' = Inr v"
proof -
  from assms have "subject_of msg \<noteq> JUndefined"
    by (auto simp: loose_eq_def is_nullish_def)
  then obtain kvs where m: "message_of msg = JObj kvs"
    by (cases "message_of msg") (simp_all add: subject_of_def field_def)
  then obtain kvs' where k: "msg = JObj kvs'"
    by (cases msg) (simp_all add: message_of_def field_def)
  then show "get msg ''message'' = Inr (message_of msg)"
    by (simp add: message_of_def field_def)
  from m show "and_get (message_of msg) ''response'' = Inr (response_of msg)"
    by (simp add: and_get_def response_of_def field_def)
  from m show "get (message_of msg) ''subject'' = Inr (subject_of msg)"
    by (simp add: subject_of_def field_def)
  from k show "\<exists>v. get msg ''msg'' = Inr v" by simp
qed

text \<open>The definitions that evaluate a concrete message on a concrete connection.\<close>

lemmas js_defs =
  and_get_def loose_eq_def is_nullish_def is_object_def bool_to_number_def to_primitive_def
  strict_eq_string_def iterate_def field_def message_of_def response_of_def subject_of_def
  action_of_def


lemmas connection_defs =
  on_message_def run_handler_def run_SceneUpdate_def run_status_info_def run_update_devices_def
  run_get_all_devices_def run_get_scene_current_def run_set_scene_current_def
  emit_def console_dir_def resolve_def reject_def send_def buildK1ActionMessage_def
  getAllDevices_def getCurrentAlarmState_def setAlarmState_def new_DeviceConnection_def

lemmas example_defs =
  example_connection_def example_device_def example_client_def response_message_def page_def
  example_sensor_def

lemmas login_defs =
  example_http_def userReg_def userLogin_def getUserInfo_def status_200_def
  discovery_body_def login_body_def userInfo_body_def

text \<open>What a request leaves in the mapping and in the promises.\<close>

lemma getAllDevices_fields:
  "handlers (snd (getAllDevices c)) =
     (handlers c)(''get_all_devices'' \<mapsto> get_all_devices_handler (length (devices_promises c)))"
  "devices_promises (snd (getAllDevices c)) = devices_promises c @ [Pending]"
  "alarm_promises (snd (getAllDevices c)) = alarm_promises c"
  "boolean_promises (snd (getAllDevices c)) = boolean_promises c"
  by (simp_all add: getAllDevices_def send_def Let_def)

lemma getCurrentAlarmState_fields:
  "handlers (snd (getCurrentAlarmState c)) =
     (handlers c)(''get_scene_current'' \<mapsto> get_scene_current_handler (length (alarm_promises c)))"
  "devices_promises (snd (getCurrentAlarmState c)) = devices_promises c"
  "alarm_promises (snd (getCurrentAlarmState c)) = alarm_promises c @ [Pending]"
  "boolean_promises (snd (getCurrentAlarmState c)) = boolean_promises c"
  by (simp_all add: getCurrentAlarmState_def send_def Let_def)

lemma setAlarmState_fields:
  "handlers (snd (setAlarmState rt newState c)) =
     (handlers c)(''set_scene_current'' \<mapsto>
        set_scene_current_handler (length (boolean_promises c)) newState)"
  "devices_promises (snd (setAlarmState rt newState c)) = devices_promises c"
  "alarm_promises (snd (setAlarmState rt newState c)) = alarm_promises c"
  "boolean_promises (snd (setAlarmState rt newState c)) = boolean_promises c @ [Pending]"
  by (simp_all add: setAlarmState_def send_def Let_def)

lemmas request_fields = getAllDevices_fields getCurrentAlarmState_fields setAlarmState_fields

subsection \<open>The device listing\<close>

text \<open>Each page adds its payload at the end of the list, after emptying the list when it
  carries the clear flag.\<close>

lemma is_page_step:
  assumes "is_page msg"
  shows "\<exists>c'. run_get_all_devices p msg c = Inr c' \<and>
           devices c' = (if clears msg then [] else devices c) @ DevicesList_of msg"
proof -
  from assms have nn: "\<not> is_nullish (response_of msg)" by (simp add: is_page_def)
  then obtain kvs where m: "message_of msg = JObj kvs"
    by (cases "message_of msg") (simp_all add: response_of_def field_def is_nullish_def)
  then obtain kvs' where "msg = JObj kvs'"
    by (cases msg) (simp_all add: message_of_def field_def)
  then have g1: "get msg ''message'' = Inr (message_of msg)"
    by (simp add: message_of_def field_def)
  from m have g2: "get (message_of msg) ''response'' = Inr (response_of msg)"
    by (simp add: response_of_def field_def)
  note g3 = get_field[OF nn]
  from assms have "(if truthy (field (response_of msg) ''DevicesList'')
      then iterate (field (response_of msg) ''DevicesList'') else Inr []) = Inr (DevicesList_of msg)"
    by (cases "field (response_of msg) ''DevicesList''")
       (simp_all add: is_page_def DevicesList_of_def iterate_def)
  with g1 g2 g3 show ?thesis
    by (simp add: run_get_all_devices_def Let_def clears_def strict_eq_string_def)
qed

text \<open>
  Claim C1, as the code has it. After the closure of \<^verbatim>\<open>getAllDevices\<close> has handled a
  sequence of pages, the device list is the list as it stood before (the empty list when
  a page carried \<^verbatim>\<open>clear_flag\<close> \<^verbatim>\<open>"1"\<close>), followed by the payloads of the pages from
  the last clearing page on, in the order of arrival. Every entry is kept: an entry whose
  \<^verbatim>\<open>DevId\<close> the list already holds is added behind it, not put in its place.
\<close>

theorem devices_after_pages:
  assumes "list_all is_page msgs"
  shows "\<exists>c'. run_pages p msgs c = Inr c' \<and>
           devices c' = (if list_ex clears msgs then [] else devices c) @
                          concat (map DevicesList_of (since_last_clear msgs))"
  using assms
proof (induction msgs arbitrary: c)
  case Nil
  then show ?case by simp
next
  case (Cons msg msgs)
  from Cons.prems have "is_page msg" and rest: "list_all is_page msgs" by simp_all
  from is_page_step[OF this(1)] obtain c1 where
    c1: "run_get_all_devices p msg c = Inr c1"
        "devices c1 = (if clears msg then [] else devices c) @ DevicesList_of msg"
    by blast
  from Cons.IH[OF rest, of c1] obtain c' where
    c': "run_pages p msgs c1 = Inr c'"
        "devices c' = (if list_ex clears msgs then [] else devices c1) @
                        concat (map DevicesList_of (since_last_clear msgs))"
    by blast
  have nc: "\<not> list_ex clears msgs \<Longrightarrow> since_last_clear msgs = msgs"
    by (cases msgs) simp_all
  from c1 c' nc show ?case
    by (auto simp: list_ex_iff)
qed

text \<open>Two pages with the same \<^verbatim>\<open>DevId\<close>: both entries are in the list.\<close>

theorem devices_after_pages_witness:
  "list_all is_page [page ''1'' [example_sensor ''7'' ''Door''], page ''0'' [example_sensor ''7'' ''Window'']] \<and>
   (\<exists>c'. run_pages 0 [page ''1'' [example_sensor ''7'' ''Door''], page ''0'' [example_sensor ''7'' ''Window'']]
            (snd (getAllDevices example_connection)) = Inr c' \<and>
         devices c' = [example_sensor ''7'' ''Door'', example_sensor ''7'' ''Window''])"
  using devices_after_pages [of "[page ''1'' [example_sensor ''7'' ''Door''], page ''0'' [example_sensor ''7'' ''Window'']]"
      0 "snd (getAllDevices example_connection)"]
  by (simp add: js_defs example_defs is_page_def clears_def DevicesList_of_def
      getAllDevices_def send_def new_DeviceConnection_def Let_def)

text \<open>
  The list that resolves duplicates to the entry seen last would hold one entry here; the
  connection holds two.
\<close>

theorem duplicates_kept_counterexample:
  "map_sum id devices
     (run_pages 0 [page ''1'' [example_sensor ''7'' ''Door''], page ''0'' [example_sensor ''7'' ''Window'']]
        (snd (getAllDevices example_connection))) =
     Inr [example_sensor ''7'' ''Door'', example_sensor ''7'' ''Window''] \<and>
   specified_devices (devices (snd (getAllDevices example_connection)))
     [page ''1'' [example_sensor ''7'' ''Door''], page ''0'' [example_sensor ''7'' ''Window'']] =
     [example_sensor ''7'' ''Window'']"
  by (simp add: js_defs connection_defs example_defs clears_def DevicesList_of_def
      specified_devices_def specified_page_def Let_def)




subsection \<open>Sending\<close>

text \<open>
  Claim C8. \<^verbatim>\<open>send\<close> of a message built by \<^verbatim>\<open>buildK1ActionMessage(subject, request)\<close>
  publishes one message: on the topic \<^verbatim>\<open>00s/01/x/300/<deviceID>/post/111\<close>, the JSON text
  of the envelope with type \<^verbatim>\<open>broadcast\<close>, the device as receiver, the client id as
  sender, the alias as user name, \<^verbatim>\<open>ack_mark\<close> \<^verbatim>\<open>"0"\<close>, the subject and the request.
  Nothing else of the connection changes: no handler is registered and no promise is
  created, so nothing waits for an acknowledgement.
\<close>

theorem send_envelope:
  "send (buildK1ActionMessage c subject request) c =
     c\<lparr>published := published c @
       [(''00s/01/x/300/'' @ deviceID (device c) @ ''/post/111'',
         JSON_stringify (JObj [(''message'',
           JObj [(''type'', JStr ''broadcast''),
                 (''to'', JStr (deviceID (device c))),
                 (''from'', JStr (clientId c)),
                 (''username'', Alias (client c)),
                 (''ack_mark'', JStr ''0''),
                 (''subject'', JStr subject),
                 (''request'', request)])]))]\<rparr>"
  by (simp add: send_def buildK1ActionMessage_def)

subsection \<open>The dispatch\<close>




text \<open>
  Claim C9, as the code has it. A message whose subject is \<^verbatim>\<open>Alarm\<close> leaves the model,
  the online flag, the device list, the alarm state, the handlers and the promises of the
  connection as they are, and publishes nothing. When it carries a response, the response
  is emitted to the listeners as an \<^verbatim>\<open>alarm\<close> event and nothing else happens; when it
  carries none, nothing is emitted.
\<close>

theorem alarm_emitted:
  assumes "loose_eq rt (subject_of msg) (JStr ''Alarm'') = Inr True"
  shows "\<exists>c'. on_message rt topic msg c = Inr c' \<and>
           model c' = model c \<and> online c' = online c \<and> devices c' = devices c \<and>
           alarm c' = alarm c \<and> handlers c' = handlers c \<and>
           devices_promises c' = devices_promises c \<and> alarm_promises c' = alarm_promises c \<and>
           boolean_promises c' = boolean_promises c \<and> published c' = published c \<and>
           (truthy (response_of msg) \<longrightarrow>
              c' = c\<lparr>emitted := emitted c @ [emit_alarm (response_of msg)]\<rparr>) \<and>
           (\<not> truthy (response_of msg) \<longrightarrow> emitted c' = emitted c)"
proof -
  from subject_AlarmD(4)[OF assms] obtain v where v: "get msg ''msg'' = Inr v" by blast
  with assms subject_AlarmD(1-3)[OF assms] show ?thesis
    by (simp add: on_message_def emit_def console_dir_def)
qed

theorem alarm_emitted_witness:
  "on_message example_runtime ''00s/01/x/300/D1/set/1''
     (response_message ''Alarm'' [(''deviceID'', JStr ''D1''), (''itemEvent'', JStr ''11'')])
     example_connection =
   Inr (example_connection\<lparr>emitted :=
     [emit_alarm (JObj [(''deviceID'', JStr ''D1''), (''itemEvent'', JStr ''11'')])]\<rparr>)"
  using alarm_emitted [of example_runtime "response_message ''Alarm'' [(''deviceID'', JStr ''D1''), (''itemEvent'', JStr ''11'')]"
      "''00s/01/x/300/D1/set/1''" example_connection]
  by (auto simp: js_defs response_message_def example_connection_def new_DeviceConnection_def)

text \<open>
  A message with the subject \<^verbatim>\<open>Alarm\<close> and no response: nothing is emitted, the message
  is logged as unknown.
\<close>

theorem alarm_without_response_counterexample:
  "map_sum id (\<lambda>c. (emitted c, console c))
     (on_message example_runtime ''t'' (JObj [(''message'', JObj [(''subject'', JStr ''Alarm'')])])
        example_connection) =
   Inr ([], [unknown_message ''t'' (JObj [(''message'', JObj [(''subject'', JStr ''Alarm'')])])])"
  by (simp add: js_defs connection_defs example_defs)

subsection \<open>The arm state\<close>





subsection \<open>What a handler can do to the promises\<close>

lemma effect_refl: "effect rt h msg c c"
  by (simp add: effect_def)

lemma effect_handlers:
  assumes "effect rt h msg c c'"
  shows "handlers c' k = handlers c k \<or>
         handlers c' k = Some ignore_message \<and> (k = ''get_all_devices'' \<or> k = ''get_scene_current'')"
  using assms unfolding effect_def by blast

lemma effect_status_info: "run_status_info msg c = Inr c' \<Longrightarrow> effect rt h msg c c'"
  by (auto simp: run_status_info_def then_do_def emit_def effect_def split: sum.splits if_splits)

lemma effect_update_devices: "run_update_devices rt msg c = Inr c' \<Longrightarrow> effect rt h msg c c'"
  by (auto simp: run_update_devices_def then_do_def effect_def split: sum.splits if_splits)

lemma effect_get_all_devices:
  "run_get_all_devices p msg c = Inr c' \<Longrightarrow> effect rt (get_all_devices_handler p) msg c c'"
  by (auto simp: run_get_all_devices_def then_do_def effect_def Let_def resolve_def rejected_def
      nth_list_update split: sum.splits if_splits)

lemma effect_get_scene_current:
  "run_get_scene_current rt p msg c = Inr c' \<Longrightarrow> effect rt (get_scene_current_handler p) msg c c'"
  by (auto simp: run_get_scene_current_def then_do_def effect_def resolve_def rejected_def
      nth_list_update split: sum.splits if_splits)

lemma effect_set_scene_current:
  assumes "run_set_scene_current rt p newState msg c = Inr c'"
  shows "effect rt (set_scene_current_handler p newState) msg c c'"
proof (cases "get msg ''message''")
  case (Inl e)
  with assms show ?thesis by (simp add: run_set_scene_current_def)
next
  case m: (Inr m)
  show ?thesis
  proof (cases "and_get m ''response''")
    case (Inl e)
    with assms m show ?thesis by (simp add: run_set_scene_current_def)
  next
    case resp: (Inr resp)
    show ?thesis
    proof (cases "truthy resp")
      case False
      with assms m resp show ?thesis by (simp add: run_set_scene_current_def effect_refl)
    next
      case True
      note r = response_ofI[OF m resp True]
      have g: "get resp ''status'' = Inr (field resp ''status'')"
        using True by (simp add: get_field truthy_not_nullish)
      from assms m resp True r g show ?thesis
        by (auto simp: run_set_scene_current_def then_do_def effect_def resolve_def reject_def
            rejected_def nth_list_update split: sum.splits if_splits bool.splits)
    qed
  qed
qed

lemma effect_call: "call rt h msg c = Inr c' \<Longrightarrow> effect rt h msg c c'"
  by (cases h)
     (simp_all add: effect_refl effect_status_info effect_update_devices effect_get_all_devices
        effect_get_scene_current effect_set_scene_current)

lemma effect_cong:
  "same_promises c c2 \<Longrightarrow> effect rt h msg c2 c' \<Longrightarrow> effect rt h msg c c'"
  by (simp add: same_promises_def effect_def)

lemma effect_SceneUpdate:
  assumes "run_SceneUpdate rt msg c = Inr c'"
  shows "same_promises c c' \<or> (\<exists>h. handlers c ''get_scene_current'' = Some h \<and> effect rt h msg c c')"
proof -
  from assms have
    "c' = c \<or> (\<exists>c2. same_promises c c2 \<and>
        (c' = c2 \<or> (\<exists>h. handlers c ''get_scene_current'' = Some h \<and> call rt h msg c2 = Inr c')))"
    by (auto simp: run_SceneUpdate_def then_do_def emit_def Let_def same_promises_def
        split: sum.splits if_splits option.splits)
  then show ?thesis
    by (auto simp: same_promises_def dest!: effect_call intro: effect_cong[unfolded same_promises_def])
qed

lemma effect_run_handler:
  assumes "run_handler rt h msg c = Inr c'"
  shows "same_promises c c' \<or> effect rt h msg c c' \<or>
         (\<exists>h'. handlers c ''get_scene_current'' = Some h' \<and> effect rt h' msg c c')"
proof (cases "h = SceneUpdate_handler")
  case False
  with assms show ?thesis by (simp add: run_handler_def effect_call)
next
  case True
  with assms have "run_SceneUpdate rt msg c = Inr c'" by (simp add: run_handler_def)
  from effect_SceneUpdate[OF this] show ?thesis by blast
qed

lemma effect_on_message:
  assumes "on_message rt topic msg c = Inr c'"
  shows "same_promises c c' \<or> (\<exists>k h. handlers c k = Some h \<and> effect rt h msg c c')"
proof -
  from assms have
    "same_promises c c' \<or> (\<exists>k h. handlers c k = Some h \<and> run_handler rt h msg c = Inr c')"
    by (auto simp: on_message_def then_do_def emit_def console_dir_def same_promises_def
        split: sum.splits if_splits option.splits)
  then show ?thesis
    using effect_run_handler by blast
qed

subsection \<open>Invariants\<close>

lemma well_formed_new: "well_formed (new_DeviceConnection rt d cl r)"
  by (simp add: well_formed_def new_DeviceConnection_def)

lemma well_formed_effect:
  assumes "well_formed c" and "effect rt h msg c c'"
  shows "well_formed c'"
proof -
  note e = effect_handlers[OF assms(2)]
  have 1: "registered_under h' k" if "handlers c' k = Some h'" for k h'
    using e[of k] that assms(1) by (auto simp: well_formed_def)
  have 2: "handlers c' ''SceneUpdate'' = Some SceneUpdate_handler"
    using e[of "''SceneUpdate''"] assms(1) by (simp add: well_formed_def)
  have 3: "handlers c' ''get_scene_current'' = Some ignore_message \<or>
           (\<exists>p. handlers c' ''get_scene_current'' = Some (get_scene_current_handler p))"
    using e[of "''get_scene_current''"] assms(1) by (auto simp: well_formed_def)
  from 1 2 3 show ?thesis by (simp add: well_formed_def)
qed

lemma well_formed_exec:
  assumes "well_formed c" and "exec rt s c = Inr c'"
  shows "well_formed c'"
proof (cases s)
  case (Message topic msg)
  with assms(2) have "on_message rt topic msg c = Inr c'" by simp
  from effect_on_message[OF this] show ?thesis
  proof
    assume "same_promises c c'"
    with assms(1) show ?thesis by (simp add: same_promises_def well_formed_def)
  next
    assume "\<exists>k h. handlers c k = Some h \<and> effect rt h msg c c'"
    with well_formed_effect[OF assms(1)] show ?thesis by blast
  qed
next
  case CallGetAllDevices
  with assms show ?thesis
    by (auto simp: well_formed_def request_fields split: if_splits)
next
  case CallGetCurrentAlarmState
  with assms show ?thesis
    by (auto simp: well_formed_def request_fields split: if_splits)
next
  case (CallSetAlarmState newState)
  with assms show ?thesis
    by (auto simp: well_formed_def request_fields split: if_splits)
qed

lemma well_formed_run: "well_formed c \<Longrightarrow> run rt ss c = Inr c' \<Longrightarrow> well_formed c'"
proof (induction ss arbitrary: c)
  case Nil
  then show ?case by simp
next
  case (Cons s ss)
  then show ?case
    by (auto split: sum.splits dest: well_formed_exec)
qed

subsection \<open>Scene updates\<close>




subsection \<open>Overlapping requests\<close>

lemma pending_effect:
  assumes "unreferenced rq p c" and "promise_pending rq p c" and "handlers c k = Some h"
      and "effect rt h msg c c'"
  shows "unreferenced rq p c' \<and> promise_pending rq p c'"
proof -
  from assms(1,3) have nr: "\<not> resolves h rq p" by (simp add: unreferenced_def)
  have u: "unreferenced rq p c'"
    unfolding unreferenced_def
  proof (intro allI impI)
    fix k' h' assume "handlers c' k' = Some h'"
    with effect_handlers[OF assms(4), of k'] have "handlers c k' = Some h' \<or> h' = ignore_message"
      by auto
    with assms(1) show "\<not> resolves h' rq p" by (auto simp: unreferenced_def)
  qed
  from assms(4) have
    len: "length (devices_promises c') = length (devices_promises c)"
         "length (alarm_promises c') = length (alarm_promises c)"
         "length (boolean_promises c') = length (boolean_promises c)" and
    d: "devices_promises c' ! p \<noteq> devices_promises c ! p \<longrightarrow> h = get_all_devices_handler p" and
    a: "alarm_promises c' ! p \<noteq> alarm_promises c ! p \<longrightarrow> h = get_scene_current_handler p" and
    b: "boolean_promises c' ! p \<noteq> boolean_promises c ! p \<longrightarrow>
          (\<exists>newState. h = set_scene_current_handler p newState)"
    by (simp_all add: effect_def)
  from assms(2) nr len d a b have "promise_pending rq p c'"
    by (cases rq) auto
  with u show ?thesis ..
qed

lemma pending_exec:
  assumes "unreferenced rq p c" and "promise_pending rq p c" and "exec rt s c = Inr c'"
  shows "unreferenced rq p c' \<and> promise_pending rq p c'"
proof (cases s)
  case (Message topic msg)
  with assms(3) have "on_message rt topic msg c = Inr c'" by simp
  from effect_on_message[OF this] show ?thesis
  proof
    assume "same_promises c c'"
    with assms(1,2) show ?thesis
      by (cases rq) (simp_all add: same_promises_def unreferenced_def)
  next
    assume "\<exists>k h. handlers c k = Some h \<and> effect rt h msg c c'"
    with pending_effect[OF assms(1,2)] show ?thesis by blast
  qed
next
  case CallGetAllDevices
  with assms show ?thesis
    by (cases rq) (auto simp: unreferenced_def request_fields nth_append split: if_splits)
next
  case CallGetCurrentAlarmState
  with assms show ?thesis
    by (cases rq) (auto simp: unreferenced_def request_fields nth_append split: if_splits)
next
  case (CallSetAlarmState newState)
  with assms show ?thesis
    by (cases rq) (auto simp: unreferenced_def request_fields nth_append split: if_splits)
qed

lemma pending_run:
  "unreferenced rq p c \<Longrightarrow> promise_pending rq p c \<Longrightarrow> run rt ss c = Inr c' \<Longrightarrow>
     promise_pending rq p c'"
proof (induction ss arbitrary: c)
  case Nil
  then show ?case by simp
next
  case (Cons s ss)
  from Cons.prems(3) obtain c1 where c1: "exec rt s c = Inr c1" "run rt ss c1 = Inr c'"
    by (auto split: sum.splits)
  from pending_exec[OF Cons.prems(1,2) c1(1)] Cons.IH[OF _ _ c1(2)] show ?case by blast
qed

lemma overwritten:
  assumes "well_formed c" and "promise_pending rq p c" and "same_action rq rq'"
      and "exec rt rq' c = Inr c1"
  shows "unreferenced rq p c1 \<and> promise_pending rq p c1 \<and>
         (\<exists>h. handlers c1 (action_name rq') = Some h \<and> resolves h rq' (promise_count rq' c) \<and>
               \<not> resolves h rq p)"
proof -
  have wf: "\<And>k h. handlers c k = Some h \<Longrightarrow> registered_under h k"
    using assms(1) by (simp add: well_formed_def)
  show ?thesis
  proof (cases rq')
    case (Message topic msg)
    with assms(3) show ?thesis by (cases rq) simp_all
  next
    case CallGetAllDevices
    with assms(3) have rq: "rq = CallGetAllDevices" by (cases rq) simp_all
    have "\<not> resolves h rq p" if "handlers c k = Some h" "k \<noteq> ''get_all_devices''" for k h
      using wf[OF that(1)] that(2) rq by (cases h) simp_all
    with assms(2,4) rq CallGetAllDevices show ?thesis
      by (auto simp: unreferenced_def request_fields nth_append split: if_splits)
  next
    case CallGetCurrentAlarmState
    with assms(3) have rq: "rq = CallGetCurrentAlarmState" by (cases rq) simp_all
    have "\<not> resolves h rq p" if "handlers c k = Some h" "k \<noteq> ''get_scene_current''" for k h
      using wf[OF that(1)] that(2) rq by (cases h) simp_all
    with assms(2,4) rq CallGetCurrentAlarmState show ?thesis
      by (auto simp: unreferenced_def request_fields nth_append split: if_splits)
  next
    case (CallSetAlarmState newState)
    with assms(3) obtain s0 where rq: "rq = CallSetAlarmState s0" by (cases rq) simp_all
    have "\<not> resolves h rq p" if "handlers c k = Some h" "k \<noteq> ''set_scene_current''" for k h
      using wf[OF that(1)] that(2) rq by (cases h) simp_all
    with assms(2,4) rq CallSetAlarmState show ?thesis
      by (auto simp: unreferenced_def request_fields nth_append split: if_splits)
  qed
qed

text \<open>
  Claim C4. The mapping holds one handler under an action name. At any point of the life
  of a connection, when a request is issued for an action while the promise of an earlier
  request for that action is pending, the entry under the action name becomes the handler
  of the new request, which does not hold the earlier promise; whatever messages and
  requests follow, the earlier promise stays pending.
\<close>

theorem overwritten_request_stays_pending:
  assumes "run rt ss0 (new_DeviceConnection rt d cl r) = Inr c"
      and "promise_pending rq p c"
      and "same_action rq rq'"
      and "exec rt rq' c = Inr c1"
      and "run rt ss c1 = Inr c'"
  shows "(\<exists>h. handlers c1 (action_name rq') = Some h \<and> resolves h rq' (promise_count rq' c) \<and>
               \<not> resolves h rq p) \<and>
         promise_pending rq p c'"
proof -
  have "well_formed c"
    using well_formed_run[OF well_formed_new assms(1)] .
  from overwritten[OF this assms(2,3,4)] pending_run[OF _ _ assms(5)] show ?thesis by blast
qed

theorem overwritten_request_stays_pending_witness:
  "\<exists>c'. run example_runtime [CallGetAllDevices, CallGetAllDevices,
             Message ''t'' (page ''0'' [example_sensor ''1'' ''Door''])] example_connection = Inr c' \<and>
        devices_promises c' = [Pending, Resolved [example_sensor ''1'' ''Door'']] \<and>
        promise_pending CallGetAllDevices 0 c'"
proof -
  let ?c = "snd (getAllDevices example_connection)"
  let ?c1 = "snd (getAllDevices ?c)"
  let ?m = "page ''0'' [example_sensor ''1'' ''Door'']"
  have r0: "run example_runtime [CallGetAllDevices] (new_DeviceConnection example_runtime example_device example_client (Finite 42)) = Inr ?c"
    by (simp add: example_connection_def)
  have pp: "promise_pending CallGetAllDevices 0 ?c"
    by (simp add: request_fields example_connection_def new_DeviceConnection_def)
  have e: "exec example_runtime CallGetAllDevices ?c = Inr ?c1"
    by simp
  have "\<exists>c'. on_message example_runtime ''t'' ?m ?c1 = Inr c' \<and>
          devices_promises c' = [Pending, Resolved [example_sensor ''1'' ''Door'']]"
    by (simp add: js_defs connection_defs example_defs Let_def)
  then obtain c' where c': "on_message example_runtime ''t'' ?m ?c1 = Inr c'"
    "devices_promises c' = [Pending, Resolved [example_sensor ''1'' ''Door'']]"
    by blast
  then have r: "run example_runtime [Message ''t'' ?m] ?c1 = Inr c'"
    by simp
  from overwritten_request_stays_pending [OF r0 pp _ e r, simplified]
  have "promise_pending CallGetAllDevices 0 c'" by simp
  with c' show ?thesis by simp
qed

subsection \<open>Rejections\<close>








subsection \<open>The login\<close>

lemma status_200_truthy: "status_200 rt v k = Inr True \<Longrightarrow> truthy v"
  by (simp add: status_200_def split: if_splits)

lemma login_discovery_failed:
  assumes "\<forall>data1. http (userReg rt now uuid') = Inr data1 \<longrightarrow>
             status_200 rt (field data1 ''uibReturn'') ''Return status'' \<noteq> Inr True"
  shows "fst (login rt http now username' password uuid') = [userReg rt now uuid'] \<and>
         isl (snd (login rt http now username' password uuid'))"
proof (cases "http (userReg rt now uuid')")
  case (Inl e)
  then show ?thesis by (simp add: login_def)
next
  case (Inr data1)
  with assms have ns: "status_200 rt (field data1 ''uibReturn'') ''Return status'' \<noteq> Inr True"
    by simp
  show ?thesis
  proof (cases "get data1 ''uibReturn''")
    case (Inl e)
    with Inr show ?thesis by (simp add: login_def)
  next
    case u: (Inr uib')
    then have "uib' = field data1 ''uibReturn''" by (simp add: field_def)
    with ns Inr u show ?thesis
      by (cases "status_200 rt uib' ''Return status''") (auto simp: login_def split: bool.splits)
  qed
qed

lemma login_discovery_ok:
  assumes "http (userReg rt now uuid') = Inr data1"
      and "status_200 rt (field data1 ''uibReturn'') ''Return status'' = Inr True"
      and "to_string rt (field (field data1 ''uibReturn'') ''uacIP'') = Inr ip"
      and "to_string rt (field (field data1 ''uibReturn'') ''token'') = Inr uib_token"
      and "http (userLogin rt now (''https://'' @ ip) username' password uuid' uib_token) = Inr data2"
  shows "(status_200 rt data2 ''status'' = Inr False \<longrightarrow>
            login rt http now username' password uuid' =
              ([userReg rt now uuid',
                userLogin rt now (''https://'' @ ip) username' password uuid' uib_token],
               Inl (Thrown data2))) \<and>
         (status_200 rt data2 ''status'' = Inr True \<and>
          http (getUserInfo rt now (''https://'' @ ip) username' uib_token) = Inr data3 \<and>
          status_200 rt data3 ''status'' = Inr False \<longrightarrow>
            login rt http now username' password uuid' =
              ([userReg rt now uuid',
                userLogin rt now (''https://'' @ ip) username' password uuid' uib_token,
                getUserInfo rt now (''https://'' @ ip) username' uib_token],
               Inl (Thrown data3))) \<and>
         (status_200 rt data2 ''status'' = Inr True \<and>
          http (getUserInfo rt now (''https://'' @ ip) username' uib_token) = Inr data3 \<and>
          status_200 rt data3 ''status'' = Inr True \<and> \<not> is_nullish (field data3 ''user'') \<longrightarrow>
            login rt http now username' password uuid' =
              ([userReg rt now uuid',
                userLogin rt now (''https://'' @ ip) username' password uuid' uib_token,
                getUserInfo rt now (''https://'' @ ip) username' uib_token],
               Inr \<lparr>baseURL = ''https://'' @ ip, username = username',
                    Alias = field (field data3 ''user'') ''userAlias'', uuid = uuid',
                    uib = field data1 ''uibReturn'', token = field data2 ''token''\<rparr>))"
proof -
  let ?uib = "field data1 ''uibReturn''"
  from status_200_truthy[OF assms(2)] have tu: "truthy ?uib" .
  then have g1: "get data1 ''uibReturn'' = Inr ?uib"
    by (rule get_field_of_truthy)
  from tu have gu: "\<And>k. get ?uib k = Inr (field ?uib k)"
    by (simp add: get_field truthy_not_nullish)
  have g2: "get data2 ''token'' = Inr (field data2 ''token'')" if "status_200 rt data2 ''status'' = Inr True"
    using status_200_truthy[OF that] by (simp add: get_field truthy_not_nullish)
  have g3: "get data3 ''user'' = Inr (field data3 ''user'')" if "status_200 rt data3 ''status'' = Inr True"
    using status_200_truthy[OF that] by (simp add: get_field truthy_not_nullish)
  show ?thesis
    using assms g1 gu g2 g3
    by (auto simp: login_def Let_def get_field)
qed

text \<open>
  Claim C5, as the code has it. When the discovery does not answer with a status equal to
  \<^verbatim>\<open>200\<close> (no answer, no \<^verbatim>\<open>uibReturn\<close>, another status), the login issues no request
  but the discovery and fails. When it does, the login step follows; a status of the login
  step that is not \<^verbatim>\<open>200\<close> makes the login throw the body of that response, and so
  does a status of the user-information step that follows a successful login step; when
  both answer with \<^verbatim>\<open>200\<close> and the last body names a user, the login returns a client
  with the token of the login step.
\<close>

theorem login_gates:
  "((\<forall>data1. http (userReg rt now uuid') = Inr data1 \<longrightarrow>
       status_200 rt (field data1 ''uibReturn'') ''Return status'' \<noteq> Inr True) \<longrightarrow>
      fst (login rt http now username' password uuid') = [userReg rt now uuid'] \<and>
      isl (snd (login rt http now username' password uuid'))) \<and>
   (http (userReg rt now uuid') = Inr data1 \<and>
    status_200 rt (field data1 ''uibReturn'') ''Return status'' = Inr True \<and>
    to_string rt (field (field data1 ''uibReturn'') ''uacIP'') = Inr ip \<and>
    to_string rt (field (field data1 ''uibReturn'') ''token'') = Inr uib_token \<and>
    http (userLogin rt now (''https://'' @ ip) username' password uuid' uib_token) = Inr data2 \<longrightarrow>
      (status_200 rt data2 ''status'' = Inr False \<longrightarrow>
         login rt http now username' password uuid' =
           ([userReg rt now uuid',
             userLogin rt now (''https://'' @ ip) username' password uuid' uib_token],
            Inl (Thrown data2))) \<and>
      (status_200 rt data2 ''status'' = Inr True \<and>
       http (getUserInfo rt now (''https://'' @ ip) username' uib_token) = Inr data3 \<and>
       status_200 rt data3 ''status'' = Inr False \<longrightarrow>
         login rt http now username' password uuid' =
           ([userReg rt now uuid',
             userLogin rt now (''https://'' @ ip) username' password uuid' uib_token,
             getUserInfo rt now (''https://'' @ ip) username' uib_token],
            Inl (Thrown data3))) \<and>
      (status_200 rt data2 ''status'' = Inr True \<and>
       http (getUserInfo rt now (''https://'' @ ip) username' uib_token) = Inr data3 \<and>
       status_200 rt data3 ''status'' = Inr True \<and> \<not> is_nullish (field data3 ''user'') \<longrightarrow>
         login rt http now username' password uuid' =
           ([userReg rt now uuid',
             userLogin rt now (''https://'' @ ip) username' password uuid' uib_token,
             getUserInfo rt now (''https://'' @ ip) username' uib_token],
            Inr \<lparr>baseURL = ''https://'' @ ip, username = username',
                 Alias = field (field data3 ''user'') ''userAlias'', uuid = uuid',
                 uib = field data1 ''uibReturn'', token = field data2 ''token''\<rparr>)))"
  using login_discovery_failed[of http rt now uuid' username' password]
    login_discovery_ok[of http rt now uuid' data1 ip uib_token username' password data2 data3]
  by blast

theorem login_gates_witness:
  "fst (login example_runtime (example_http (discovery_body ''404'') (login_body ''200'') (userInfo_body ''200''))
          (\<lambda>k. Finite 1000) ''ann'' ''secret'' ''U1'') = [userReg example_runtime (\<lambda>k. Finite 1000) ''U1''] \<and>
   isl (snd (login example_runtime (example_http (discovery_body ''404'') (login_body ''200'') (userInfo_body ''200''))
          (\<lambda>k. Finite 1000) ''ann'' ''secret'' ''U1'')) \<and>
   map_sum id token
     (snd (login example_runtime (example_http (discovery_body ''200'') (login_body ''200'') (userInfo_body ''200''))
          (\<lambda>k. Finite 1000) ''ann'' ''secret'' ''U1'')) = Inr (JStr ''ABC'')"
  using login_gates [of "example_http (discovery_body ''404'') (login_body ''200'') (userInfo_body ''200'')"
      example_runtime "\<lambda>k. Finite 1000" "''U1''" "''ann''" "''secret''"]
    login_gates [of "example_http (discovery_body ''200'') (login_body ''200'') (userInfo_body ''200'')"
      example_runtime "\<lambda>k. Finite 1000" "''U1''" "''ann''" "''secret''" "discovery_body ''200''" "''1.2.3.4''" "''T''"
      "login_body ''200''" "userInfo_body ''200''"]
  by (simp add: login_defs js_defs DREAMCATCHER_ROOT_def)

text \<open>The login step answers \<^verbatim>\<open>200\<close> with a token, the user-information step answers
  \<^verbatim>\<open>500\<close>: the login throws and no client is returned.\<close>

theorem user_info_gate_counterexample:
  "status_200 example_runtime (login_body ''200'') ''status'' = Inr True \<and>
   snd (login example_runtime (example_http (discovery_body ''200'') (login_body ''200'') (userInfo_body ''500''))
          (\<lambda>k. Finite 1000) ''ann'' ''secret'' ''U1'') = Inl (Thrown (userInfo_body ''500''))"
  by (simp add: login_def login_defs js_defs DREAMCATCHER_ROOT_def Let_def)

end
